theory Spec2Isabelle
  imports Complex_Main
begin

section \<open>The payment ledger of src/index.js\<close>

text \<open>
  The Express handlers of \<^verbatim>\<open>src/index.js\<close> are embedded as functions over an explicit
  database value. Conventions of the embedding:
  \<^item> a field of the JSON request body is a \<open>jsval\<close>; JSON arrays and objects are not
    modelled as field values;
  \<^item> JavaScript numbers and PostgreSQL decimals are exact rationals: rounding of doubles,
    \<^verbatim>\<open>Infinity\<close> and the column's scale are outside the model;
  \<^item> every awaited call on the pool or the client is a \<open>call\<close>; a fault oracle
    \<open>fails :: call \<Rightarrow> bool\<close> says which of them reject, so that every \<^verbatim>\<open>catch\<close> branch of
    the source is a branch of the model;
  \<^item> a handler returns its HTTP response, the committed database, and the trace of the
    calls it made.
\<close>

subsection \<open>JavaScript values\<close>

datatype jsval = JUndefined | JNull | JBool bool | JNum rat | JStr string

text \<open>\<^verbatim>\<open>!v\<close> is \<open>\<not> truthy v\<close>: undefined, null, false, 0 and the empty string are falsy.\<close>

fun truthy :: "jsval \<Rightarrow> bool" where
  "truthy JUndefined = False"
| "truthy JNull = False"
| "truthy (JBool b) = b"
| "truthy (JNum x) = (x \<noteq> 0)"
| "truthy (JStr s) = (s \<noteq> [])"

text \<open>The result of \<^verbatim>\<open>parseFloat\<close>: a number or NaN.\<close>

datatype jsnum = NaN | Num rat

fun js_minus :: "jsnum \<Rightarrow> jsnum \<Rightarrow> jsnum" where
  "js_minus (Num a) (Num b) = Num (a - b)"
| "js_minus _ _ = NaN"

subsection \<open>Decimal literals\<close>

definition is_digit :: "char \<Rightarrow> bool" where
  "is_digit c = (c \<in> set ''0123456789'')"

definition is_space :: "char \<Rightarrow> bool" where
  "is_space c = (c \<in> set [CHR '' '', CHR 0x09, CHR 0x0A, CHR 0x0B, CHR 0x0C, CHR 0x0D])"

definition digit_val :: "char \<Rightarrow> nat" where
  "digit_val c = of_char c - 48"

definition digits_nat :: "string \<Rightarrow> nat" where
  "digits_nat ds = foldl (\<lambda>a c. 10 * a + digit_val c) 0 ds"

definition parse_sign :: "string \<Rightarrow> int \<times> string" where
  "parse_sign s =
     (case s of
        [] \<Rightarrow> (1, s)
      | c # r \<Rightarrow> if c = CHR ''-'' then (- 1, r) else if c = CHR ''+'' then (1, r) else (1, s))"

definition pow10 :: "int \<Rightarrow> rat" where
  "pow10 e = (if 0 \<le> e then 10 ^ nat e else 1 / 10 ^ nat (- e))"

text \<open>An exponent part \<^verbatim>\<open>e[+-]digits\<close>; without a digit there is no exponent part.\<close>

definition parse_exponent :: "string \<Rightarrow> (int \<times> string) option" where
  "parse_exponent s =
     (case s of
        [] \<Rightarrow> None
      | c # r \<Rightarrow>
          if c = CHR ''e'' \<or> c = CHR ''E'' then
            (let (sg, r1) = parse_sign r; ds = takeWhile is_digit r1
             in if ds = [] then None
                else Some (sg * int (digits_nat ds), dropWhile is_digit r1))
          else None)"

text \<open>
  The longest prefix \<^verbatim>\<open>[+-] digits [. digits] [exponent]\<close> with at least one digit in
  the mantissa, and the rest of the string. The grammar is the one \<^verbatim>\<open>parseFloat\<close> and
  PostgreSQL's numeric input share; the special literals \<^verbatim>\<open>NaN\<close> and \<^verbatim>\<open>Infinity\<close> are
  not modelled.
\<close>

definition parse_decimal :: "string \<Rightarrow> (rat \<times> string) option" where
  "parse_decimal s =
     (let (sg, s1) = parse_sign s;
          ip = takeWhile is_digit s1;
          s2 = dropWhile is_digit s1;
          (fp, s3) = (case s2 of
                        [] \<Rightarrow> ([], s2)
                      | c # r \<Rightarrow> if c = CHR ''.''
                                then (takeWhile is_digit r, dropWhile is_digit r)
                                else ([], s2))
      in if ip = [] \<and> fp = [] then None
         else
           (let m = of_int sg * (of_nat (digits_nat ip) + of_nat (digits_nat fp) / 10 ^ length fp)
            in case parse_exponent s3 of
                 None \<Rightarrow> Some (m, s3)
               | Some (e, s4) \<Rightarrow> Some (m * pow10 e, s4)))"

text \<open>\<^verbatim>\<open>parseFloat\<close> on a string skips leading white space and reads the longest prefix.\<close>

definition parseFloat_str :: "string \<Rightarrow> jsnum" where
  "parseFloat_str s =
     (case parse_decimal (dropWhile is_space s) of None \<Rightarrow> NaN | Some (x, _) \<Rightarrow> Num x)"

text \<open>
  \<^verbatim>\<open>parseFloat(v)\<close> converts its argument to a string first: a number reads back as
  itself, \<^verbatim>\<open>"true"\<close>, \<^verbatim>\<open>"null"\<close> and \<^verbatim>\<open>"undefined"\<close> do not start with a number.
\<close>

fun parseFloat :: "jsval \<Rightarrow> jsnum" where
  "parseFloat (JNum x) = Num x"
| "parseFloat (JStr s) = parseFloat_str s"
| "parseFloat _ = NaN"

subsection \<open>Query parameters\<close>

text \<open>
  node-postgres sends every bound parameter as text. \<open>pg_text\<close> is that text, used for the
  key columns; a number is written in plain decimal notation.
\<close>

definition digit_char :: "nat \<Rightarrow> char" where
  "digit_char n = char_of (48 + n)"

fun nat_text :: "nat \<Rightarrow> string" where
  "nat_text n = (if n < 10 then [digit_char n] else nat_text (n div 10) @ [digit_char (n mod 10)])"

declare nat_text.simps [simp del]

fun frac_text :: "nat \<Rightarrow> rat \<Rightarrow> string" where
  "frac_text 0 x = []"
| "frac_text (Suc k) x =
     (if x = 0 then []
      else (let d = nat \<lfloor>x * 10\<rfloor> in digit_char d # frac_text k (x * 10 - of_nat d)))"

definition num_text :: "rat \<Rightarrow> string" where
  "num_text x =
     (let a = \<bar>x\<bar>; ip = nat \<lfloor>a\<rfloor>; fr = a - of_nat ip
      in (if x < 0 then ''-'' else []) @ nat_text ip
         @ (if fr = 0 then [] else CHR ''.'' # frac_text 17 fr))"

fun pg_text :: "jsval \<Rightarrow> string" where
  "pg_text (JStr s) = s"
| "pg_text (JNum x) = num_text x"
| "pg_text (JBool b) = (if b then ''true'' else ''false'')"
| "pg_text JNull = []"
| "pg_text JUndefined = []"

text \<open>
  PostgreSQL's input of a decimal column: white space, one decimal literal, white space;
  anything else is an error of the statement.
\<close>

definition numeric_in :: "string \<Rightarrow> rat option" where
  "numeric_in s =
     (case parse_decimal (dropWhile is_space s) of
        None \<Rightarrow> None
      | Some (x, r) \<Rightarrow> if list_all is_space r then Some x else None)"

text \<open>
  The value a decimal column takes from a bound parameter. The decimal text of a number
  reads back as that number; the texts \<^verbatim>\<open>true\<close> and \<^verbatim>\<open>false\<close> are no decimals.
\<close>

fun pg_numeric :: "jsval \<Rightarrow> rat option" where
  "pg_numeric (JNum x) = Some x"
| "pg_numeric (JStr s) = numeric_in s"
| "pg_numeric _ = None"

subsection \<open>The two tables\<close>

text \<open>
  \<^verbatim>\<open>customers(account_number, emi_due, ...)\<close>: the record's extension stands for the
  remaining columns. \<^verbatim>\<open>payments(id, customer_account_number, payment_amount, status,
  payment_date)\<close>: the id comes from a sequence and the date from the server's clock,
  counted in seconds of server-local time. The schema is not part of \<^verbatim>\<open>src/index.js\<close>;
  as the queries use them, the keys are text and \<open>emi_due\<close> and \<open>payment_amount\<close> are
  decimal columns without NULL.
\<close>

record customer =
  account_number :: string
  emi_due :: rat

record payment =
  payment_id :: nat
  customer_account_number :: string
  payment_amount :: rat
  status :: string
  payment_date :: nat

text \<open>
  The committed state. \<open>payments\<close> is in insertion order. The sequence is not
  transactional: a value drawn by a statement that is rolled back later is not reused.
\<close>

record 'z database =
  customers :: "'z customer_scheme list"
  payments :: "payment list"
  payment_id_seq :: nat

subsection \<open>Calls, traces and responses\<close>

datatype call =
    Connect | Begin | SelectDue | RollbackNotFound | InsertPayment | UpdateDue | Commit
  | RollbackCatch | TodayQuery | DueQuery | SelectPayments

text \<open>A trace entry: a call that resolved, a call that rejected, or \<^verbatim>\<open>client.release()\<close>.\<close>

datatype event = Ok call | Err call | Released

text \<open>
  \<open>InvalidArgument\<close> is status 400, \<open>NotFound\<close> 404, \<open>StorageError\<close> 500, \<open>Created\<close> 201
  with the inserted row and \<^verbatim>\<open>new_balance\<close>. \<open>Unanswered\<close>: the handler's promise rejected
  and no response was sent.
\<close>

datatype response =
    Created payment rat
  | InvalidArgument
  | NotFound
  | StorageError
  | Unanswered
  | Analytics rat rat
  | Rows "payment list"

record 'z outcome =
  response :: response
  store :: "'z database"
  trace :: "event list"

text \<open>Connection handles taken from the pool and not given back.\<close>

definition held_handles :: "event list \<Rightarrow> nat" where
  "held_handles tr = length (filter (\<lambda>e. e = Ok Connect) tr) - length (filter (\<lambda>e. e = Released) tr)"

subsection \<open>POST /payments\<close>

text \<open>The rows of \<^verbatim>\<open>SELECT emi_due FROM customers WHERE account_number = $1\<close>.\<close>

definition select_due :: "string \<Rightarrow> 'z database \<Rightarrow> 'z customer_scheme list" where
  "select_due k db = filter (\<lambda>c. account_number c = k) (customers db)"

text \<open>\<^verbatim>\<open>UPDATE customers SET emi_due = $1 WHERE account_number = $2\<close>.\<close>

definition update_due :: "rat \<Rightarrow> string \<Rightarrow> 'z customer_scheme list \<Rightarrow> 'z customer_scheme list" where
  "update_due d k cs = map (\<lambda>c. if account_number c = k then c\<lparr>emi_due := d\<rparr> else c) cs"

text \<open>
  The row of \<^verbatim>\<open>INSERT INTO payments (customer_account_number, payment_amount, status)
  VALUES ($1, $2, 'SUCCESS') RETURNING *\<close>, with the next value of the sequence and the
  time of the transaction.
\<close>

definition new_payment :: "nat \<Rightarrow> jsval \<Rightarrow> rat \<Rightarrow> 'z database \<Rightarrow> payment" where
  "new_payment now acct amt db =
     \<lparr>payment_id = payment_id_seq db,
      customer_account_number = pg_text acct,
      payment_amount = amt,
      status = ''SUCCESS'',
      payment_date = now\<rparr>"

text \<open>The body of the \<^verbatim>\<open>try\<close> block either sends a response or throws.\<close>

datatype 'z attempt =
    Responded response "'z database" "event list"
  | Threw "'z database" "event list"

text \<open>
  The transaction of lines 58 to 93. Its writes reach the committed database at
  \<^verbatim>\<open>COMMIT\<close> only; a rejected \<^verbatim>\<open>COMMIT\<close> commits nothing. A parameter that is no
  decimal makes the \<^verbatim>\<open>INSERT\<close> reject. \<open>currentDue\<close> is \<^verbatim>\<open>parseFloat\<close> of the decimal
  text of \<open>emi_due\<close>, that is \<open>emi_due\<close> itself. The branch for a NaN \<open>newDue\<close> is never
  taken (lemma \<open>parseFloat_pg_numeric\<close>): an amount the \<^verbatim>\<open>INSERT\<close> accepts is a number.
\<close>

definition payment_transaction ::
  "(call \<Rightarrow> bool) \<Rightarrow> nat \<Rightarrow> jsval \<Rightarrow> jsval \<Rightarrow> 'z database \<Rightarrow> 'z attempt" where
  "payment_transaction fails now acct amount db =
     (if fails Begin then Threw db [Err Begin]
      else if fails SelectDue then Threw db [Ok Begin, Err SelectDue]
      else
        (case select_due (pg_text acct) db of
           [] \<Rightarrow>
             if fails RollbackNotFound
             then Threw db [Ok Begin, Ok SelectDue, Err RollbackNotFound]
             else Responded NotFound db [Ok Begin, Ok SelectDue, Ok RollbackNotFound]
         | row # _ \<Rightarrow>
             (let currentDue = emi_due row in
              if fails InsertPayment then Threw db [Ok Begin, Ok SelectDue, Err InsertPayment]
              else
                (case pg_numeric amount of
                   None \<Rightarrow> Threw db [Ok Begin, Ok SelectDue, Err InsertPayment]
                 | Some amt \<Rightarrow>
                     (let newPayment = new_payment now acct amt db;
                          db1 = db\<lparr>payment_id_seq := Suc (payment_id_seq db)\<rparr>
                      in case js_minus (Num currentDue) (parseFloat amount) of
                           NaN \<Rightarrow>
                             Threw db1 [Ok Begin, Ok SelectDue, Ok InsertPayment, Err UpdateDue]
                         | Num newDue \<Rightarrow>
                             if fails UpdateDue
                             then Threw db1 [Ok Begin, Ok SelectDue, Ok InsertPayment, Err UpdateDue]
                             else if fails Commit
                             then Threw db1 [Ok Begin, Ok SelectDue, Ok InsertPayment,
                                             Ok UpdateDue, Err Commit]
                             else Responded (Created newPayment newDue)
                                    (db1\<lparr>customers := update_due newDue (pg_text acct) (customers db),
                                         payments := payments db @ [newPayment]\<rparr>)
                                    [Ok Begin, Ok SelectDue, Ok InsertPayment, Ok UpdateDue,
                                     Ok Commit])))))"

text \<open>
  The handler: validation, \<^verbatim>\<open>pool.connect()\<close> outside the \<^verbatim>\<open>try\<close>, the transaction,
  \<^verbatim>\<open>ROLLBACK\<close> in the \<^verbatim>\<open>catch\<close> block, \<^verbatim>\<open>client.release()\<close> in \<^verbatim>\<open>finally\<close>. A rejected
  \<^verbatim>\<open>pool.connect()\<close> and a rejected \<^verbatim>\<open>ROLLBACK\<close> in the \<^verbatim>\<open>catch\<close> block leave the request
  unanswered.
\<close>

definition record_payment ::
  "(call \<Rightarrow> bool) \<Rightarrow> nat \<Rightarrow> jsval \<Rightarrow> jsval \<Rightarrow> 'z database \<Rightarrow> 'z outcome" where
  "record_payment fails now acct amount db =
     (if \<not> truthy acct \<or> \<not> truthy amount
      then \<lparr>response = InvalidArgument, store = db, trace = []\<rparr>
      else if fails Connect
      then \<lparr>response = Unanswered, store = db, trace = [Err Connect]\<rparr>
      else
        (case payment_transaction fails now acct amount db of
           Responded r db' tr \<Rightarrow>
             \<lparr>response = r, store = db', trace = Ok Connect # tr @ [Released]\<rparr>
         | Threw db' tr \<Rightarrow>
             if fails RollbackCatch
             then \<lparr>response = Unanswered, store = db',
                   trace = Ok Connect # tr @ [Err RollbackCatch, Released]\<rparr>
             else \<lparr>response = StorageError, store = db',
                   trace = Ok Connect # tr @ [Ok RollbackCatch, Released]\<rparr>))"

subsection \<open>GET /analytics\<close>

text \<open>The calendar date of a timestamp, as \<^verbatim>\<open>payment_date::date\<close> takes it.\<close>

definition date_of :: "nat \<Rightarrow> nat" where
  "date_of t = t div 86400"

text \<open>SQL's \<^verbatim>\<open>SUM\<close> over no rows is NULL.\<close>

definition sql_sum :: "rat list \<Rightarrow> rat option" where
  "sql_sum xs = (if xs = [] then None else Some (sum_list xs))"

text \<open>
  \<^verbatim>\<open>total || 0\<close>: NULL gives 0. A sum arrives as its decimal text, which is never empty
  and so is truthy, also when the sum is zero.
\<close>

definition or_zero :: "rat option \<Rightarrow> rat" where
  "or_zero t = (case t of None \<Rightarrow> 0 | Some x \<Rightarrow> x)"

definition collected_on :: "nat \<Rightarrow> 'z database \<Rightarrow> rat list" where
  "collected_on today db =
     map payment_amount (filter (\<lambda>p. date_of (payment_date p) = today) (payments db))"

text \<open>
  Lines 130 to 158. \<^verbatim>\<open>pool.connect()\<close> is inside the \<^verbatim>\<open>try\<close>; \<^verbatim>\<open>client.release()\<close>
  is the statement after the two queries, so the \<^verbatim>\<open>catch\<close> branch does not reach it.
  \<open>today\<close> is \<^verbatim>\<open>CURRENT_DATE\<close>.
\<close>

definition get_analytics :: "(call \<Rightarrow> bool) \<Rightarrow> nat \<Rightarrow> 'z database \<Rightarrow> 'z outcome" where
  "get_analytics fails today db =
     (if fails Connect
      then \<lparr>response = StorageError, store = db, trace = [Err Connect]\<rparr>
      else if fails TodayQuery
      then \<lparr>response = StorageError, store = db, trace = [Ok Connect, Err TodayQuery]\<rparr>
      else if fails DueQuery
      then \<lparr>response = StorageError, store = db,
            trace = [Ok Connect, Ok TodayQuery, Err DueQuery]\<rparr>
      else \<lparr>response = Analytics (or_zero (sql_sum (collected_on today db)))
                                 (or_zero (sql_sum (map emi_due (customers db)))),
            store = db,
            trace = [Ok Connect, Ok TodayQuery, Ok DueQuery, Released]\<rparr>)"

subsection \<open>GET /payments and GET /payments/:account_number\<close>

text \<open>
  \<^verbatim>\<open>ORDER BY payment_date DESC\<close>. SQL leaves the order of rows with equal dates open;
  the model puts the later insertion first.
\<close>

definition order_by_date_desc :: "payment list \<Rightarrow> payment list" where
  "order_by_date_desc ps = rev (sort_key payment_date ps)"



subsection \<open>Fault oracles and the example of the specification\<close>

definition no_fault :: "call \<Rightarrow> bool" where
  "no_fault c = False"

definition only_fails :: "call \<Rightarrow> call \<Rightarrow> bool" where
  "only_fails c c' = (c' = c)"

text \<open>Account ACC100 with a due of 5000 and an empty ledger.\<close>

definition acc100_db :: "unit database" where
  "acc100_db =
     \<lparr>customers = [\<lparr>account_number = ''ACC100'', emi_due = 5000\<rparr>],
      payments = [],
      payment_id_seq = 1\<rparr>"

subsection \<open>Concurrent requests\<close>

text \<open>
  Node runs the handlers of concurrent requests interleaved at their \<^verbatim>\<open>await\<close>s: a
  request advances by one awaited call at a time. The position of a request is the call
  it awaits, with the values its local variables hold: \<open>currentDue\<close> before the
  \<^verbatim>\<open>INSERT\<close>, the inserted row and \<open>newDue\<close> afterwards.
\<close>

datatype pc =
    AtConnect
  | AtBegin
  | AtSelect
  | AtRollbackNotFound
  | AtInsert rat
  | AtUpdate payment jsnum
  | AtCommit payment rat
  | AtRollbackCatch
  | Finished response

record request =
  req_acct :: jsval
  req_amount :: jsval
  req_time :: nat
  pc :: pc

text \<open>Lines 50 to 54 run when the request arrives, before the first \<^verbatim>\<open>await\<close>.\<close>

definition start :: "jsval \<Rightarrow> jsval \<Rightarrow> nat \<Rightarrow> request" where
  "start acct amount now =
     \<lparr>req_acct = acct, req_amount = amount, req_time = now,
      pc = (if \<not> truthy acct \<or> \<not> truthy amount then Finished InvalidArgument else AtConnect)\<rparr>"

record 'z system =
  committed :: "'z database"
  requests :: "request list"

text \<open>
  A request that has run its \<^verbatim>\<open>UPDATE\<close> and not yet its \<^verbatim>\<open>COMMIT\<close> holds the lock of
  the rows it updated.
\<close>

definition holds_lock :: "string \<Rightarrow> request \<Rightarrow> bool" where
  "holds_lock k r = (case pc r of AtCommit _ _ \<Rightarrow> pg_text (req_acct r) = k | _ \<Rightarrow> False)"

text \<open>
  One awaited call of request \<open>r\<close>, under the isolation level the plain \<^verbatim>\<open>BEGIN\<close> of
  line 60 gets, PostgreSQL's default READ COMMITTED: a statement reads the rows committed
  when it runs, the writes of a transaction become visible at its \<^verbatim>\<open>COMMIT\<close>, and an
  \<^verbatim>\<open>UPDATE\<close> waits while another transaction holds the lock of the row. No call rejects
  except an \<^verbatim>\<open>INSERT\<close> whose amount is no decimal. The result is \<open>None\<close> when the request
  cannot move: it has finished, or it waits for a lock. \<open>others\<close> are the other requests.
\<close>

definition advance ::
  "request list \<Rightarrow> request \<Rightarrow> 'z database \<Rightarrow> (request \<times> 'z database) option" where
  "advance others r db =
     (let k = pg_text (req_acct r) in
      case pc r of
        AtConnect \<Rightarrow> Some (r\<lparr>pc := AtBegin\<rparr>, db)
      | AtBegin \<Rightarrow> Some (r\<lparr>pc := AtSelect\<rparr>, db)
      | AtSelect \<Rightarrow>
          (case select_due k db of
             [] \<Rightarrow> Some (r\<lparr>pc := AtRollbackNotFound\<rparr>, db)
           | row # _ \<Rightarrow> Some (r\<lparr>pc := AtInsert (emi_due row)\<rparr>, db))
      | AtRollbackNotFound \<Rightarrow> Some (r\<lparr>pc := Finished NotFound\<rparr>, db)
      | AtInsert currentDue \<Rightarrow>
          (case pg_numeric (req_amount r) of
             None \<Rightarrow> Some (r\<lparr>pc := AtRollbackCatch\<rparr>, db)
           | Some amt \<Rightarrow>
               Some (r\<lparr>pc := AtUpdate (new_payment (req_time r) (req_acct r) amt db)
                                      (js_minus (Num currentDue) (parseFloat (req_amount r)))\<rparr>,
                     db\<lparr>payment_id_seq := Suc (payment_id_seq db)\<rparr>))
      | AtUpdate p newDue \<Rightarrow>
          (case newDue of
             NaN \<Rightarrow> Some (r\<lparr>pc := AtRollbackCatch\<rparr>, db)
           | Num d \<Rightarrow>
               if list_ex (holds_lock k) others then None
               else Some (r\<lparr>pc := AtCommit p d\<rparr>, db))
      | AtCommit p d \<Rightarrow>
          Some (r\<lparr>pc := Finished (Created p d)\<rparr>,
                db\<lparr>customers := update_due d k (customers db),
                   payments := payments db @ [p]\<rparr>)
      | AtRollbackCatch \<Rightarrow> Some (r\<lparr>pc := Finished StorageError\<rparr>, db)
      | Finished _ \<Rightarrow> None)"

text \<open>Request number \<open>i\<close> makes one call.\<close>

definition step :: "nat \<Rightarrow> 'z system \<Rightarrow> 'z system option" where
  "step i s =
     (if i < length (requests s) then
        (case advance (take i (requests s) @ drop (Suc i) (requests s)) (requests s ! i)
                (committed s) of
           None \<Rightarrow> None
         | Some (r', db') \<Rightarrow> Some \<lparr>committed = db', requests = (requests s)[i := r']\<rparr>)
      else None)"

text \<open>A schedule names the request that moves next; it is \<open>None\<close> when that request cannot.\<close>

fun run :: "nat list \<Rightarrow> 'z system \<Rightarrow> 'z system option" where
  "run [] s = Some s"
| "run (i # sched) s = (case step i s of None \<Rightarrow> None | Some s' \<Rightarrow> run sched s')"

text \<open>Two payments of 2000 and of 4000 on ACC100 that arrive together.\<close>

definition two_payments :: "unit system" where
  "two_payments =
     \<lparr>committed = acc100_db,
      requests = [start (JStr ''ACC100'') (JNum 2000) 10, start (JStr ''ACC100'') (JNum 4000) 11]\<rparr>"

text \<open>The rows the two payments of the specification's scenario insert.\<close>

definition first_payment :: payment where
  "first_payment =
     \<lparr>payment_id = 1, customer_account_number = ''ACC100'', payment_amount = 2000,
      status = ''SUCCESS'', payment_date = 10\<rparr>"

definition second_payment :: payment where
  "second_payment =
     \<lparr>payment_id = 2, customer_account_number = ''ACC100'', payment_amount = 4000,
      status = ''SUCCESS'', payment_date = 11\<rparr>"

definition acc100_after_first :: "unit database" where
  "acc100_after_first =
     \<lparr>customers = [\<lparr>account_number = ''ACC100'', emi_due = 3000\<rparr>],
      payments = [first_payment],
      payment_id_seq = 2\<rparr>"

definition acc100_after_second :: "unit database" where
  "acc100_after_second =
     \<lparr>customers = [\<lparr>account_number = ''ACC100'', emi_due = - 1000\<rparr>],
      payments = [first_payment, second_payment],
      payment_id_seq = 3\<rparr>"

definition lost_update_db :: "unit database" where
  "lost_update_db =
     \<lparr>customers = [\<lparr>account_number = ''ACC100'', emi_due = 1000\<rparr>],
      payments = [first_payment, second_payment],
      payment_id_seq = 3\<rparr>"

text \<open>The payment a request with the amount \<^verbatim>\<open>"0"\<close>, a string, inserts.\<close>

definition zero_payment :: payment where
  "zero_payment =
     \<lparr>payment_id = 1, customer_account_number = ''ACC100'', payment_amount = 0,
      status = ''SUCCESS'', payment_date = 10\<rparr>"


text \<open>Two accounts with a further column, the customer's name, and an earlier payment.\<close>

definition earlier_payment :: payment where
  "earlier_payment =
     \<lparr>payment_id = 7, customer_account_number = ''ACC200'', payment_amount = 300,
      status = ''SUCCESS'', payment_date = 5\<rparr>"

definition two_accounts_db :: "string database" where
  "two_accounts_db =
     \<lparr>customers = [\<lparr>account_number = ''ACC100'', emi_due = 5000, \<dots> = ''Asha''\<rparr>,
                   \<lparr>account_number = ''ACC200'', emi_due = 700, \<dots> = ''Ravi''\<rparr>],
      payments = [earlier_payment],
      payment_id_seq = 8\<rparr>"

definition third_payment :: payment where
  "third_payment =
     \<lparr>payment_id = 8, customer_account_number = ''ACC100'', payment_amount = 2000,
      status = ''SUCCESS'', payment_date = 10\<rparr>"

subsection \<open>Notions of the specification\<close>

text \<open>An input that is missing, null or empty.\<close>

definition absent :: "jsval \<Rightarrow> bool" where
  "absent v = (v = JUndefined \<or> v = JNull \<or> v = JStr [])"


text \<open>Invariant I1: every payment references an account.\<close>

definition references_accounts :: "'z database \<Rightarrow> bool" where
  "references_accounts db =
     list_all (\<lambda>p. list_ex (\<lambda>c. account_number c = customer_account_number p) (customers db))
       (payments db)"

text \<open>A request that runs alone, for at most \<open>n\<close> calls.\<close>

fun run_alone :: "nat \<Rightarrow> 'z system \<Rightarrow> 'z system" where
  "run_alone 0 s = s"
| "run_alone (Suc n) s = (case step 0 s of None \<Rightarrow> s | Some s' \<Rightarrow> run_alone n s')"

text \<open>The committed database and the positions of the requests after a schedule.\<close>

definition finals :: "'z system option \<Rightarrow> ('z database \<times> pc list) option" where
  "finals s = map_option (\<lambda>s. (committed s, map pc (requests s))) s"

section \<open>Properties\<close>

subsection \<open>Parameters and rows\<close>

lemma parseFloat_pg_numeric: "pg_numeric v = Some x \<Longrightarrow> parseFloat v = Num x"
  by (cases v) (auto simp: numeric_in_def parseFloat_str_def split: option.splits if_splits)




subsection \<open>The transaction\<close>

lemma tx_threw:
  assumes "payment_transaction fails now acct amount db = Threw db' tr"
  shows "customers db' = customers db \<and> payments db' = payments db"
  using assms
  by (auto simp: payment_transaction_def Let_def
           split: if_splits list.splits option.splits jsnum.splits)

lemma tx_responded:
  assumes "payment_transaction fails now acct amount db = Responded r db' tr"
  shows "(r = NotFound \<and> db' = db \<and> select_due (pg_text acct) db = []
          \<and> tr = [Ok Begin, Ok SelectDue, Ok RollbackNotFound])
       \<or> (\<exists>row rest amt.
             select_due (pg_text acct) db = row # rest \<and> pg_numeric amount = Some amt
           \<and> r = Created (new_payment now acct amt db) (emi_due row - amt)
           \<and> db' = db\<lparr>payment_id_seq := Suc (payment_id_seq db),
                      customers := update_due (emi_due row - amt) (pg_text acct) (customers db),
                      payments := payments db @ [new_payment now acct amt db]\<rparr>
           \<and> tr = [Ok Begin, Ok SelectDue, Ok InsertPayment, Ok UpdateDue, Ok Commit])"
  using assms
  by (auto simp: payment_transaction_def Let_def dest!: parseFloat_pg_numeric
           split: if_splits list.splits option.splits jsnum.splits)


lemma tx_not_found:
  assumes "\<not> fails Begin" "\<not> fails SelectDue" "\<not> fails RollbackNotFound"
    "select_due (pg_text acct) db = []"
  shows "payment_transaction fails now acct amount db =
     Responded NotFound db [Ok Begin, Ok SelectDue, Ok RollbackNotFound]"
  using assms by (simp add: payment_transaction_def)

subsection \<open>The handler of POST /payments\<close>

lemma rp_invalid:
  "\<not> truthy acct \<or> \<not> truthy amount \<Longrightarrow>
   record_payment fails now acct amount db = \<lparr>response = InvalidArgument, store = db, trace = []\<rparr>"
  by (auto simp: record_payment_def)

lemma rp_invalid_iff:
  "response (record_payment fails now acct amount db) = InvalidArgument
     \<longleftrightarrow> \<not> truthy acct \<or> \<not> truthy amount"
proof (cases "payment_transaction fails now acct amount db")
  case (Responded r db' tr)
  with tx_responded[OF Responded] show ?thesis
    by (auto simp: record_payment_def)
next
  case (Threw db' tr)
  then show ?thesis by (auto simp: record_payment_def)
qed

lemma rp_created:
  assumes "response (record_payment fails now acct amount db) = Created p d"
  shows "\<exists>row rest amt.
             select_due (pg_text acct) db = row # rest \<and> pg_numeric amount = Some amt
           \<and> truthy acct \<and> truthy amount
           \<and> p = new_payment now acct amt db \<and> d = emi_due row - amt
           \<and> store (record_payment fails now acct amount db) =
               db\<lparr>payment_id_seq := Suc (payment_id_seq db),
                  customers := update_due d (pg_text acct) (customers db),
                  payments := payments db @ [p]\<rparr>"
proof -
  from assms have ok: "truthy acct" "truthy amount" "\<not> fails Connect"
    by (auto simp: record_payment_def split: if_splits)
  show ?thesis
  proof (cases "payment_transaction fails now acct amount db")
    case (Responded r db' tr)
    with assms ok have "r = Created p d" "store (record_payment fails now acct amount db) = db'"
      by (auto simp: record_payment_def)
    with tx_responded[OF Responded] ok show ?thesis by auto
  next
    case (Threw db' tr)
    with assms ok show ?thesis by (auto simp: record_payment_def split: if_splits)
  qed
qed

lemma rp_not_created:
  assumes "\<And>p d. response (record_payment fails now acct amount db) \<noteq> Created p d"
  shows "customers (store (record_payment fails now acct amount db)) = customers db
       \<and> payments (store (record_payment fails now acct amount db)) = payments db"
proof (cases "\<not> truthy acct \<or> \<not> truthy amount \<or> fails Connect")
  case True
  then show ?thesis by (auto simp: record_payment_def)
next
  case pass: False
  show ?thesis
  proof (cases "payment_transaction fails now acct amount db")
    case (Responded r db' tr)
    with pass have eq: "response (record_payment fails now acct amount db) = r"
      "store (record_payment fails now acct amount db) = db'"
      by (auto simp: record_payment_def)
    from tx_responded[OF Responded] assms eq show ?thesis by auto
  next
    case (Threw db' tr)
    with pass have "store (record_payment fails now acct amount db) = db'"
      by (auto simp: record_payment_def)
    with tx_threw[OF Threw] show ?thesis by simp
  qed
qed


lemma list_ex_update_due:
  "list_ex (\<lambda>c. account_number c = k') (update_due d k cs)
     = list_ex (\<lambda>c. account_number c = k') cs"
  by (induction cs) (simp_all add: update_due_def)

lemma list_ex_of_filter: "filter P xs = row # rest \<Longrightarrow> list_ex P xs"
  by (induction xs) (auto split: if_splits)

text \<open>Invariant I1 is kept: the new payment references the account that was read.\<close>

lemma rp_references:
  assumes "references_accounts db"
  shows "references_accounts (store (record_payment fails now acct amount db))"
proof (cases "\<exists>p d. response (record_payment fails now acct amount db) = Created p d")
  case True
  then obtain p d where c: "response (record_payment fails now acct amount db) = Created p d"
    by blast
  from rp_created[OF c] obtain row rest amt where
    sel: "select_due (pg_text acct) db = row # rest"
    and p: "p = new_payment now acct amt db"
    and st: "store (record_payment fails now acct amount db) =
               db\<lparr>payment_id_seq := Suc (payment_id_seq db),
                  customers := update_due d (pg_text acct) (customers db),
                  payments := payments db @ [p]\<rparr>"
    by blast
  have known: "list_ex (\<lambda>c. account_number c = pg_text acct) (customers db)"
    using sel unfolding select_due_def by (rule list_ex_of_filter)
  have pk: "customer_account_number p = pg_text acct"
    by (simp add: p new_payment_def)
  show ?thesis
    using assms known
    by (simp add: st references_accounts_def list_ex_update_due pk)
next
  case False
  then have "\<And>p d. response (record_payment fails now acct amount db) \<noteq> Created p d"
    by blast
  from rp_not_created[OF this] assms show ?thesis
    by (simp add: references_accounts_def)
qed

subsection \<open>Listings\<close>


lemma set_order_by_date_desc [simp]: "set (order_by_date_desc ps) = set ps"
  by (simp add: order_by_date_desc_def)

lemma length_order_by_date_desc [simp]: "length (order_by_date_desc ps) = length ps"
  by (simp add: order_by_date_desc_def)

subsection \<open>Connection handles\<close>

lemma tx_trace_no_handles:
  "payment_transaction fails now acct amount db = Responded r db' tr \<or>
   payment_transaction fails now acct amount db = Threw db' tr \<Longrightarrow>
   Ok Connect \<notin> set tr \<and> Released \<notin> set tr"
  by (auto simp: payment_transaction_def Let_def
           split: if_splits list.splits option.splits jsnum.splits)

lemma held_handles_bracket:
  "Ok Connect \<notin> set tr \<Longrightarrow> Released \<notin> set tr \<Longrightarrow> e \<noteq> Released \<Longrightarrow> e \<noteq> Ok Connect \<Longrightarrow>
   held_handles (Ok Connect # tr @ [e, Released]) = 0
   \<and> held_handles (Ok Connect # tr @ [Released]) = 0"
proof -
  assume a: "Ok Connect \<notin> set tr" "Released \<notin> set tr" "e \<noteq> Released" "e \<noteq> Ok Connect"
  have "filter (\<lambda>e. e = Ok Connect) tr = []" "filter (\<lambda>e. e = Released) tr = []"
    using a by (auto simp: filter_empty_conv)
  then show ?thesis using a by (simp add: held_handles_def)
qed

text \<open>The \<^verbatim>\<open>finally\<close> block of POST /payments gives the handle back on every path.\<close>

lemma record_payment_releases:
  "held_handles (trace (record_payment fails now acct amount db)) = 0"
proof (cases "payment_transaction fails now acct amount db")
  case (Responded r db' tr)
  with tx_trace_no_handles[of fails now acct amount db r db' tr]
  show ?thesis
    using held_handles_bracket[of tr "Ok RollbackCatch"]
    by (auto simp: record_payment_def held_handles_def)
next
  case (Threw db' tr)
  with tx_trace_no_handles[of fails now acct amount db undefined db' tr]
  show ?thesis
    using held_handles_bracket[of tr "Ok RollbackCatch"] held_handles_bracket[of tr "Err RollbackCatch"]
    by (auto simp: record_payment_def held_handles_def)
qed

lemma get_analytics_releases:
  "\<not> fails TodayQuery \<Longrightarrow> \<not> fails DueQuery \<Longrightarrow>
   held_handles (trace (get_analytics fails today db)) = 0"
  by (simp add: get_analytics_def held_handles_def)

subsection \<open>A request that runs alone\<close>

lemma step_single:
  "step 0 \<lparr>committed = db, requests = [r]\<rparr> =
     (case advance [] r db of None \<Rightarrow> None
      | Some (r', db') \<Rightarrow> Some \<lparr>committed = db', requests = [r']\<rparr>)"
  by (simp add: step_def split: option.split)

text \<open>
  Without another request in between, the calls of one request leave the database and
  the response of \<open>record_payment\<close> when no call rejects.
\<close>

lemma alone_agrees:
  "run_alone 6 \<lparr>committed = db, requests = [start acct amount now]\<rparr> =
     \<lparr>committed = store (record_payment no_fault now acct amount db),
      requests = [\<lparr>req_acct = acct, req_amount = amount, req_time = now,
                   pc = Finished (response (record_payment no_fault now acct amount db))\<rparr>]\<rparr>"
proof (cases "\<not> truthy acct \<or> \<not> truthy amount")
  case True
  then show ?thesis
    by (auto simp: eval_nat_numeral step_single advance_def start_def record_payment_def)
next
  case valid: False
  show ?thesis
  proof (cases "select_due (pg_text acct) db")
    case Nil
    with valid show ?thesis
      by (simp add: eval_nat_numeral step_single advance_def start_def record_payment_def
            payment_transaction_def no_fault_def)
  next
    case (Cons row rest)
    show ?thesis
    proof (cases "pg_numeric amount")
      case None
      with valid Cons show ?thesis
        by (simp add: eval_nat_numeral step_single advance_def start_def record_payment_def
              payment_transaction_def no_fault_def)
    next
      case (Some amt)
      with valid Cons parseFloat_pg_numeric[OF Some] show ?thesis
        by (simp add: eval_nat_numeral step_single advance_def start_def record_payment_def
              payment_transaction_def no_fault_def Let_def)
    qed
  qed
qed

text \<open>One request after the other: the second payment starts from the due the first left.\<close>

lemma one_after_the_other:
  "finals (run [0, 0, 0, 0, 0, 0, 1, 1, 1, 1, 1, 1] two_payments)
     = Some (acc100_after_second,
             [Finished (Created first_payment 3000), Finished (Created second_payment (- 1000))])"
  by code_simp

subsection \<open>Evaluation on the examples\<close>

lemma acc100_first:
  "record_payment no_fault 10 (JStr ''ACC100'') (JNum 2000) acc100_db =
     \<lparr>response = Created first_payment 3000, store = acc100_after_first,
      trace = [Ok Connect, Ok Begin, Ok SelectDue, Ok InsertPayment, Ok UpdateDue, Ok Commit,
               Released]\<rparr>"
  by (simp add: record_payment_def payment_transaction_def select_due_def update_due_def Let_def
        new_payment_def no_fault_def acc100_db_def acc100_after_first_def first_payment_def)


lemma two_accounts_first:
  "record_payment no_fault 10 (JStr ''ACC100'') (JNum 2000) two_accounts_db =
     \<lparr>response = Created third_payment 3000,
      store = \<lparr>customers = [\<lparr>account_number = ''ACC100'', emi_due = 3000, \<dots> = ''Asha''\<rparr>,
                            \<lparr>account_number = ''ACC200'', emi_due = 700, \<dots> = ''Ravi''\<rparr>],
               payments = [earlier_payment, third_payment],
               payment_id_seq = 9\<rparr>,
      trace = [Ok Connect, Ok Begin, Ok SelectDue, Ok InsertPayment, Ok UpdateDue, Ok Commit,
               Released]\<rparr>"
  by (simp add: record_payment_def payment_transaction_def select_due_def update_due_def Let_def
        new_payment_def no_fault_def two_accounts_db_def third_payment_def)


lemma acc100_after_second_tables [simp]:
  "payments acc100_after_second = [first_payment, second_payment]"
  "customers acc100_after_second = [\<lparr>account_number = ''ACC100'', emi_due = - 1000\<rparr>]"
  by (simp_all add: acc100_after_second_def)

lemma payment_fields [simp]:
  "customer_account_number first_payment = ''ACC100''"
  "customer_account_number second_payment = ''ACC100''"
  "payment_amount first_payment = 2000" "payment_amount second_payment = 4000"
  "payment_date first_payment = 10" "payment_date second_payment = 11"
  by (simp_all add: first_payment_def second_payment_def)

lemma numeric_in_zero: "numeric_in ''0'' = Some 0"
  by (simp add: numeric_in_def parse_decimal_def parse_sign_def parse_exponent_def is_digit_def
        is_space_def digits_nat_def digit_val_def)

section \<open>The claims\<close>



text \<open>
  C2 (no lost update). Two requests on ACC100, due 5000, pay 2000 and 4000. Each reads
  the due before the other commits; both answer 201, and the due the second one writes,
  5000 - 4000 = 1000, replaces the 3000 of the first. The final due is 1000, not
  5000 - (2000 + 4000) = -1000: the claim does not hold for this interleaving.
\<close>

theorem interleaved_payments_lose_update:
  "finals (run [0, 0, 0, 1, 1, 1, 0, 0, 0, 1, 1, 1] two_payments)
     = Some (lost_update_db,
             [Finished (Created first_payment 3000), Finished (Created second_payment 1000)])
   \<and> map emi_due (customers lost_update_db) = [1000]
   \<and> (5000 :: rat) - (2000 + 4000) = - 1000"
  by code_simp




text \<open>
  C4 (validation), amended. The call fails with \<open>InvalidArgument\<close> exactly when the
  account number or the amount is falsy (undefined, null, false, 0 or the empty string).
  So it does whenever one of them is missing, null or empty. On this failure no
  connection is taken, no statement is sent and the database is as before. The
  claim's "exactly when an input is absent" fails: the amount 0 is not absent.
\<close>

theorem validation_falsy:
  "(response (record_payment fails now acct amount db) = InvalidArgument
      \<longleftrightarrow> \<not> truthy acct \<or> \<not> truthy amount)
   \<and> (absent acct \<or> absent amount \<longrightarrow>
        record_payment fails now acct amount db
          = \<lparr>response = InvalidArgument, store = db, trace = []\<rparr>)
   \<and> (response (record_payment fails now acct amount db) = InvalidArgument \<longrightarrow>
        trace (record_payment fails now acct amount db) = []
      \<and> store (record_payment fails now acct amount db) = db)"
proof -
  have "\<not> truthy acct \<or> \<not> truthy amount" if "absent acct \<or> absent amount"
    using that by (auto simp: absent_def)
  then show ?thesis
    using rp_invalid[of acct amount fails now db] rp_invalid_iff[of fails now acct amount db]
    by auto
qed

theorem validation_falsy_witness:
  "absent JUndefined
   \<and> record_payment no_fault 10 (JStr ''ACC100'') JUndefined acc100_db
       = \<lparr>response = InvalidArgument, store = acc100_db, trace = []\<rparr>
   \<and> trace (record_payment no_fault 10 (JStr []) (JNum 100) acc100_db) = []"
proof -
  have a: "absent (JStr ''ACC100'') \<or> absent JUndefined" by (simp add: absent_def)
  have b: "response (record_payment no_fault 10 (JStr []) (JNum 100) acc100_db) = InvalidArgument"
    by (simp add: record_payment_def)
  from validation_falsy[of no_fault 10 "JStr ''ACC100''" JUndefined acc100_db] a
    validation_falsy[of no_fault 10 "JStr []" "JNum 100" acc100_db] b
  show ?thesis by (simp add: absent_def)
qed

theorem validation_absent_counterexample:
  "response (record_payment no_fault 10 (JStr ''ACC100'') (JNum 0) acc100_db) = InvalidArgument
   \<and> \<not> absent (JStr ''ACC100'') \<and> \<not> absent (JNum 0)"
  by (simp add: record_payment_def absent_def)

text \<open>
  C5 (unknown account), amended. For an account number that no customer has, the call
  inserts no payment and changes no due, whatever the amount and whichever calls reject.
  It answers \<open>NotFound\<close> when account number and amount are truthy and none of
  \<^verbatim>\<open>pool.connect()\<close>, \<^verbatim>\<open>BEGIN\<close>, the \<^verbatim>\<open>SELECT\<close> and the \<^verbatim>\<open>ROLLBACK\<close> rejects. The claim's
  "always \<open>NotFound\<close>" fails: without an amount the answer is \<open>InvalidArgument\<close>, and
  with a rejected \<^verbatim>\<open>SELECT\<close> it is \<open>StorageError\<close>.
\<close>

theorem unknown_account:
  assumes "select_due (pg_text acct) db = []"
  shows "payments (store (record_payment fails now acct amount db)) = payments db
       \<and> customers (store (record_payment fails now acct amount db)) = customers db
       \<and> (truthy acct \<and> truthy amount \<and> \<not> fails Connect \<and> \<not> fails Begin \<and> \<not> fails SelectDue
            \<and> \<not> fails RollbackNotFound \<longrightarrow>
          record_payment fails now acct amount db
            = \<lparr>response = NotFound, store = db,
               trace = [Ok Connect, Ok Begin, Ok SelectDue, Ok RollbackNotFound, Released]\<rparr>)"
proof -
  have "response (record_payment fails now acct amount db) \<noteq> Created p d" for p d
    using rp_created[of fails now acct amount db p d] assms by auto
  from rp_not_created[OF this] show ?thesis
    using tx_not_found[of fails acct db now amount] assms
    by (auto simp: record_payment_def)
qed

theorem unknown_account_witness:
  "select_due (pg_text (JStr ''UNKNOWN'')) acc100_db = []
   \<and> record_payment no_fault 10 (JStr ''UNKNOWN'') (JNum 100) acc100_db
       = \<lparr>response = NotFound, store = acc100_db,
          trace = [Ok Connect, Ok Begin, Ok SelectDue, Ok RollbackNotFound, Released]\<rparr>"
proof -
  have u: "select_due (pg_text (JStr ''UNKNOWN'')) acc100_db = []"
    by (simp add: select_due_def acc100_db_def)
  from unknown_account[OF u, of no_fault 10 "JNum 100"] u show ?thesis
    by (simp add: no_fault_def)
qed

theorem unknown_account_counterexample:
  "select_due (pg_text (JStr ''UNKNOWN'')) acc100_db = []
   \<and> truthy (JStr ''UNKNOWN'')
   \<and> response (record_payment no_fault 10 (JStr ''UNKNOWN'') JUndefined acc100_db) = InvalidArgument
   \<and> response (record_payment (only_fails SelectDue) 10 (JStr ''UNKNOWN'') (JNum 100) acc100_db)
       = StorageError"
  by (simp add: record_payment_def payment_transaction_def select_due_def acc100_db_def
        only_fails_def)





text \<open>
  C8 (connection handles). \<open>get_analytics\<close> takes a handle and, when its first or its
  second query rejects, answers 500 without \<^verbatim>\<open>client.release()\<close>: it still holds one
  handle, where the claim says none.
\<close>

theorem analytics_keeps_handle:
  "get_analytics (only_fails TodayQuery) 0 acc100_db
     = \<lparr>response = StorageError, store = acc100_db, trace = [Ok Connect, Err TodayQuery]\<rparr>
   \<and> held_handles (trace (get_analytics (only_fails TodayQuery) 0 acc100_db)) = 1
   \<and> held_handles (trace (get_analytics (only_fails DueQuery) 0 acc100_db)) = 1"
  by (simp add: get_analytics_def only_fails_def held_handles_def)

text \<open>
  C9 (falsy amounts), amended. A call whose amount is falsy, in particular the number
  0, is rejected with \<open>InvalidArgument\<close> before any call on the store; so a payment
  recorded for a number as amount never has the amount 0. The claim's "a zero-amount
  payment can never be recorded" fails: the string \<^verbatim>\<open>"0"\<close> is truthy, the \<^verbatim>\<open>INSERT\<close>
  reads it as the decimal 0, and the payment is recorded with the due unchanged.
\<close>

theorem falsy_amount_rejected:
  "(\<not> truthy amount \<longrightarrow>
      record_payment fails now acct amount db
        = \<lparr>response = InvalidArgument, store = db, trace = []\<rparr>)
   \<and> (\<forall>x p d. response (record_payment fails now acct (JNum x) db) = Created p d
         \<longrightarrow> x \<noteq> 0 \<and> payment_amount p = x)"
proof -
  have "x \<noteq> 0 \<and> payment_amount p = x"
    if "response (record_payment fails now acct (JNum x) db) = Created p d" for x p d
    using rp_created[OF that] by (auto simp: new_payment_def)
  then show ?thesis using rp_invalid[of acct amount fails now db] by blast
qed

theorem falsy_amount_rejected_witness:
  "\<not> truthy (JNum 0)
   \<and> record_payment no_fault 10 (JStr ''ACC100'') (JNum 0) acc100_db
       = \<lparr>response = InvalidArgument, store = acc100_db, trace = []\<rparr>
   \<and> response (record_payment no_fault 10 (JStr ''ACC100'') (JNum 2000) acc100_db)
       = Created first_payment 3000
   \<and> payment_amount first_payment = 2000"
proof -
  have z: "\<not> truthy (JNum 0)" by simp
  have ok: "response (record_payment no_fault 10 (JStr ''ACC100'') (JNum 2000) acc100_db)
      = Created first_payment 3000"
    by (simp add: acc100_first)
  from falsy_amount_rejected[of "JNum 0" no_fault 10 "JStr ''ACC100''" acc100_db] z
    falsy_amount_rejected[of "JNum 0" no_fault 10 "JStr ''ACC100''" acc100_db] ok
  show ?thesis by auto
qed

theorem zero_string_recorded_counterexample:
  "truthy (JStr ''0'')
   \<and> response (record_payment no_fault 10 (JStr ''ACC100'') (JStr ''0'') acc100_db)
       = Created zero_payment 5000
   \<and> payments (store (record_payment no_fault 10 (JStr ''ACC100'') (JStr ''0'') acc100_db))
       = [zero_payment]
   \<and> payment_amount zero_payment = 0"
proof -
  have pf: "parseFloat_str ''0'' = Num 0"
    using parseFloat_pg_numeric[of "JStr ''0''" 0] by (simp add: numeric_in_zero)
  show ?thesis
    by (simp add: record_payment_def payment_transaction_def select_due_def update_due_def Let_def
        new_payment_def no_fault_def acc100_db_def zero_payment_def numeric_in_zero pf)
qed

text \<open>
  C10 (frame). When \<open>record_payment\<close> answers 201, the ledger is the old ledger followed
  by one payment, which references the account of the request; the customers table
  has the same rows in the same places, a row of another account is unchanged, and a
  row of the account differs from the old row in \<open>emi_due\<close> only.
\<close>

theorem record_payment_frame:
  assumes "response (record_payment fails now acct amount db) = Created p d"
  shows "payments (store (record_payment fails now acct amount db)) = payments db @ [p]
       \<and> customer_account_number p = pg_text acct
       \<and> length (customers (store (record_payment fails now acct amount db)))
           = length (customers db)
       \<and> (\<forall>i < length (customers db).
            let c = customers db ! i;
                c' = customers (store (record_payment fails now acct amount db)) ! i
            in (account_number c \<noteq> pg_text acct \<longrightarrow> c' = c)
             \<and> (account_number c = pg_text acct \<longrightarrow> c' = c\<lparr>emi_due := d\<rparr>)
             \<and> account_number c' = account_number c
             \<and> customer.more c' = customer.more c)"
proof -
  from rp_created[OF assms] obtain row rest amt where
    p: "p = new_payment now acct amt db"
    and st: "store (record_payment fails now acct amount db) =
               db\<lparr>payment_id_seq := Suc (payment_id_seq db),
                  customers := update_due d (pg_text acct) (customers db),
                  payments := payments db @ [p]\<rparr>"
    by blast
  have "customer_account_number p = pg_text acct"
    by (simp add: p new_payment_def)
  then show ?thesis
    by (simp add: st update_due_def Let_def)
qed

theorem record_payment_frame_witness:
  "response (record_payment no_fault 10 (JStr ''ACC100'') (JNum 2000) two_accounts_db)
     = Created third_payment 3000
   \<and> payments (store (record_payment no_fault 10 (JStr ''ACC100'') (JNum 2000) two_accounts_db))
     = [earlier_payment, third_payment]
   \<and> customers (store (record_payment no_fault 10 (JStr ''ACC100'') (JNum 2000) two_accounts_db)) ! 0
     = (customers two_accounts_db ! 0)\<lparr>emi_due := 3000\<rparr>
   \<and> customers (store (record_payment no_fault 10 (JStr ''ACC100'') (JNum 2000) two_accounts_db)) ! 1
     = customers two_accounts_db ! 1"
proof -
  have ok: "response (record_payment no_fault 10 (JStr ''ACC100'') (JNum 2000) two_accounts_db)
      = Created third_payment 3000"
    by (simp add: two_accounts_first)
  note fr = record_payment_frame[OF ok]
  from fr have led:
    "payments (store (record_payment no_fault 10 (JStr ''ACC100'') (JNum 2000) two_accounts_db))
       = payments two_accounts_db @ [third_payment]"
    by (rule conjunct1)
  from fr have rows: "\<forall>i < length (customers two_accounts_db).
            let c = customers two_accounts_db ! i;
                c' = customers (store (record_payment no_fault 10 (JStr ''ACC100'') (JNum 2000)
                                         two_accounts_db)) ! i
            in (account_number c \<noteq> pg_text (JStr ''ACC100'') \<longrightarrow> c' = c)
             \<and> (account_number c = pg_text (JStr ''ACC100'') \<longrightarrow> c' = c\<lparr>emi_due := 3000\<rparr>)
             \<and> account_number c' = account_number c
             \<and> customer.more c' = customer.more c"
    by (elim conjE)
  have len: "length (customers two_accounts_db) = 2"
    and k0: "account_number (customers two_accounts_db ! 0) = pg_text (JStr ''ACC100'')"
    and k1: "account_number (customers two_accounts_db ! 1) \<noteq> pg_text (JStr ''ACC100'')"
    by (simp_all add: two_accounts_db_def)
  from rows[rule_format, of 0] len k0
  have r0: "customers (store (record_payment no_fault 10 (JStr ''ACC100'') (JNum 2000)
                                two_accounts_db)) ! 0
      = (customers two_accounts_db ! 0)\<lparr>emi_due := 3000\<rparr>"
    by (simp add: Let_def)
  from rows[rule_format, of 1] len k1
  have r1: "customers (store (record_payment no_fault 10 (JStr ''ACC100'') (JNum 2000)
                                two_accounts_db)) ! 1
      = customers two_accounts_db ! 1"
    by (simp add: Let_def)
  have "payments two_accounts_db = [earlier_payment]"
    by (simp add: two_accounts_db_def)
  with ok led r0 r1 show ?thesis by simp
qed

end
